theory Spec2Isabelle
  imports Complex_Main "HOL-Library.Char_ord" "HOL-Library.List_Lexorder" "HOL-Library.AList"
begin

section \<open>Python values\<close>

text \<open>
  The scripts handle whatever \<^verbatim>\<open>json.load\<close> and \<^verbatim>\<open>response.json()\<close> hand them, so
  a value is any JSON value. A dict is an association list in insertion order (its keys
  are distinct, as a Python dict's are); numbers are integers. Strings are lists of
  \<^typ>\<open>char\<close>; their order is the lexicographic order of the characters' codes, which is
  how Python compares \<^verbatim>\<open>str\<close>.
\<close>

datatype json =
    JNull
  | JBool bool
  | JNum int
  | JStr string
  | JList "json list"
  | JObj "(string \<times> json) list"

text \<open>
  The exceptions the scripts can meet. The first four are
  \<^verbatim>\<open>requests.RequestException\<close> and three of its subclasses; each exception carries
  \<^verbatim>\<open>str(e)\<close>.
\<close>

datatype exn =
    RequestException string
  | ConnectionError string
  | Timeout string
  | HTTPError string
  | AttributeError string
  | KeyError string
  | TypeError string
  | ValueError string
  | IndexError string

fun is_RequestException :: "exn \<Rightarrow> bool" where
  "is_RequestException (RequestException m) = True"
| "is_RequestException (ConnectionError m) = True"
| "is_RequestException (Timeout m) = True"
| "is_RequestException (HTTPError m) = True"
| "is_RequestException e = False"

fun str_exn :: "exn \<Rightarrow> string" where
  "str_exn (RequestException m) = m"
| "str_exn (ConnectionError m) = m"
| "str_exn (Timeout m) = m"
| "str_exn (HTTPError m) = m"
| "str_exn (AttributeError m) = m"
| "str_exn (KeyError m) = m"
| "str_exn (TypeError m) = m"
| "str_exn (ValueError m) = m"
| "str_exn (IndexError m) = m"

text \<open>Truth value testing: \<^verbatim>\<open>if x:\<close>.\<close>

fun truthy :: "json \<Rightarrow> bool" where
  "truthy JNull = False"
| "truthy (JBool b) = b"
| "truthy (JNum n) = (n \<noteq> 0)"
| "truthy (JStr s) = (s \<noteq> [])"
| "truthy (JList xs) = (xs \<noteq> [])"
| "truthy (JObj d) = (d \<noteq> [])"

text \<open>
  A command-line option that argparse leaves at \<^verbatim>\<open>None\<close> when it is not given:
  \<^verbatim>\<open>if args.x:\<close> is false for \<^verbatim>\<open>None\<close> and for the empty string.
\<close>

fun truthy_arg :: "string option \<Rightarrow> bool" where
  "truthy_arg None = False"
| "truthy_arg (Some s) = (s \<noteq> [])"

text \<open>\<^verbatim>\<open>x.get(k, default)\<close>: only a dict has the method.\<close>

fun py_get :: "json \<Rightarrow> string \<Rightarrow> json \<Rightarrow> exn + json" where
  "py_get (JObj d) k dflt = Inr (case map_of d k of None \<Rightarrow> dflt | Some v \<Rightarrow> v)"
| "py_get x k dflt = Inl (AttributeError ''get'')"

text \<open>\<^verbatim>\<open>x[k]\<close> with a string key: a missing key raises, and so does any value but a dict.\<close>

fun py_item :: "json \<Rightarrow> string \<Rightarrow> exn + json" where
  "py_item (JObj d) k = (case map_of d k of None \<Rightarrow> Inl (KeyError k) | Some v \<Rightarrow> Inr v)"
| "py_item x k = Inl (TypeError ''subscript'')"

text \<open>
  \<^verbatim>\<open>str.lower\<close>, on the ASCII letters (a \<^typ>\<open>char\<close> is one byte; the bytes of a
  character outside ASCII are left as they are).
\<close>

definition lower_char :: "char \<Rightarrow> char" where
  "lower_char c =
     (case map_of (zip ''ABCDEFGHIJKLMNOPQRSTUVWXYZ'' ''abcdefghijklmnopqrstuvwxyz'') c of
        None \<Rightarrow> c
      | Some l \<Rightarrow> l)"

definition lower :: "string \<Rightarrow> string" where
  "lower s = map lower_char s"

text \<open>\<^verbatim>\<open>x.lower()\<close>: only a string has the method.\<close>

fun py_lower :: "json \<Rightarrow> exn + string" where
  "py_lower (JStr s) = Inr (lower s)"
| "py_lower x = Inl (AttributeError ''lower'')"

text \<open>\<^verbatim>\<open>len(x)\<close> and \<^verbatim>\<open>for y in x\<close>: strings, lists and dicts only.\<close>

fun py_len :: "json \<Rightarrow> exn + nat" where
  "py_len (JStr s) = Inr (length s)"
| "py_len (JList xs) = Inr (length xs)"
| "py_len (JObj d) = Inr (length d)"
| "py_len x = Inl (TypeError ''len'')"

fun py_iter :: "json \<Rightarrow> exn + json list" where
  "py_iter (JStr s) = Inr (map (\<lambda>c. JStr [c]) s)"
| "py_iter (JList xs) = Inr xs"
| "py_iter (JObj d) = Inr (map (\<lambda>kv. JStr (fst kv)) d)"
| "py_iter x = Inl (TypeError ''iter'')"

section \<open>What a script does: requests, pauses, report lines\<close>

text \<open>
  An HTTP exchange either raises inside \<^verbatim>\<open>requests.post\<close> or returns a response, of
  which the scripts read the status code, the reason phrase (through
  \<^verbatim>\<open>raise_for_status\<close>) and the decoded body (\<^verbatim>\<open>response.json()\<close>, which raises
  when the body is not JSON).
\<close>

record response =
  status_code :: nat
  reason :: string
  body :: "exn + json"

datatype outcome = Raised exn | Returned response

text \<open>
  The report lines that carry data; the banners and rulers, which are constant text, are
  not recorded.
\<close>

datatype line =
    WouldSend json string
  | Payload json
  | Sent json string
  | SendFailedStatus json string nat
  | SendFailedError json string string
  | Summary nat nat
  | TestsCompleted nat nat

datatype event =
    Post string json
  | Sleep real
  | Print line

text \<open>
  The far end (the webhook, or the device's management API): what the \<open>n\<close>-th POST of
  the run (counting from 0), to a URL with a payload or form fields, comes back with.
\<close>

type_synonym endpoint = "nat \<Rightarrow> string \<Rightarrow> json \<Rightarrow> outcome"

fun is_Post :: "event \<Rightarrow> bool" where
  "is_Post (Post u p) = True"
| "is_Post e = False"

section \<open>send\_mock\_alerts.py\<close>

text \<open>
  The parsed command line, without \<^verbatim>\<open>--list\<close>: the model is of a run that sends
  (lines 138 to 191 of \<^verbatim>\<open>main\<close>, after the check that fixtures were loaded).
  \<^verbatim>\<open>--level\<close> is one of INFO, WARN, ERROR when it is given.
\<close>

record send_args =
  webhook :: string
  alert_type :: "string option"
  category :: "string option"
  level :: "string option"
  delay :: real
  dry_run :: bool

record results =
  success :: nat
  failed :: nat

text \<open>
  The three tests of the filter loop on one fixture (lines 141 to 149): \<open>Inr False\<close> is
  \<^verbatim>\<open>continue\<close>, \<open>Inr True\<close> reaches \<^verbatim>\<open>filtered[name] = alert\<close>.
\<close>

definition keep_alert :: "send_args \<Rightarrow> string \<Rightarrow> json \<Rightarrow> exn + bool" where
  "keep_alert args name alert =
     (if truthy_arg (alert_type args) \<and> Some name \<noteq> alert_type args then Inr False
      else
        (case
           (if truthy_arg (category args) then
              (case py_get alert ''category'' (JStr []) of
                 Inl e \<Rightarrow> Inl e
               | Inr c \<Rightarrow>
                   (case py_lower c of
                      Inl e \<Rightarrow> Inl e
                    | Inr lc \<Rightarrow> Inr (lc \<noteq> lower (the (category args)))))
            else Inr False)
         of
           Inl e \<Rightarrow> Inl e
         | Inr True \<Rightarrow> Inr False
         | Inr False \<Rightarrow>
             (if truthy_arg (level args) then
                (case py_get alert ''level'' JNull of
                   Inl e \<Rightarrow> Inl e
                 | Inr l \<Rightarrow> Inr (\<not> (l \<noteq> JStr (the (level args)))))
              else Inr True)))"

text \<open>
  The filter loop over \<^verbatim>\<open>alerts.items()\<close>, with the dict \<^verbatim>\<open>filtered\<close> as the
  accumulator; \<^verbatim>\<open>filtered[name] = alert\<close> is \<^const>\<open>AList.update\<close>.
\<close>

fun filter_loop ::
  "send_args \<Rightarrow> (string \<times> json) list \<Rightarrow> (string \<times> json) list \<Rightarrow> exn + (string \<times> json) list"
where
  "filter_loop args [] filtered = Inr filtered"
| "filter_loop args ((name, alert) # rest) filtered =
     (case keep_alert args name alert of
        Inl e \<Rightarrow> Inl e
      | Inr False \<Rightarrow> filter_loop args rest filtered
      | Inr True \<Rightarrow> filter_loop args rest (AList.update name alert filtered))"

definition filter_alerts :: "send_args \<Rightarrow> (string \<times> json) list \<Rightarrow> exn + (string \<times> json) list" where
  "filter_alerts args alerts = filter_loop args alerts []"

text \<open>\<^verbatim>\<open>send_alert\<close> (lines 49 to 70); the number of POSTs so far tells the webhook which one this is.\<close>

definition send_alert ::
  "endpoint \<Rightarrow> string \<Rightarrow> json \<Rightarrow> string \<Rightarrow> event list \<Rightarrow> (exn + bool) \<times> event list"
where
  "send_alert hook webhook_url alert alert_name tr =
     (case py_item alert ''body'' of
        Inl e \<Rightarrow> (Inl e, tr)
      | Inr payload \<Rightarrow>
          (let tr1 = tr @ [Post webhook_url payload] in
           case hook (length (filter is_Post tr)) webhook_url payload of
             Returned resp \<Rightarrow>
               (if status_code resp \<in> set [200, 201, 202, 204] then
                  (case py_item alert ''level'' of
                     Inl e \<Rightarrow> (Inl e, tr1)
                   | Inr lv \<Rightarrow> (Inr True, tr1 @ [Print (Sent lv alert_name)]))
                else
                  (case py_item alert ''level'' of
                     Inl e \<Rightarrow> (Inl e, tr1)
                   | Inr lv \<Rightarrow>
                       (Inr False, tr1 @ [Print (SendFailedStatus lv alert_name (status_code resp))])))
           | Raised e \<Rightarrow>
               (if is_RequestException e then
                  (case py_item alert ''level'' of
                     Inl e' \<Rightarrow> (Inl e', tr1)
                   | Inr lv \<Rightarrow>
                       (Inr False, tr1 @ [Print (SendFailedError lv alert_name (str_exn e))]))
                else (Inl e, tr1))))"

text \<open>\<^verbatim>\<open>list(filtered.keys())[-1]\<close>.\<close>

definition last_key :: "(string \<times> json) list \<Rightarrow> exn + string" where
  "last_key filtered =
     (case filtered of [] \<Rightarrow> Inl (IndexError ''list index out of range'')
      | kv # kvs \<Rightarrow> Inr (last (map fst filtered)))"

text \<open>One round of the sending loop (lines 168 to 179).\<close>

definition send_step ::
  "endpoint \<Rightarrow> send_args \<Rightarrow> (string \<times> json) list \<Rightarrow> string \<Rightarrow> json \<Rightarrow> results \<times> event list
     \<Rightarrow> (exn + results) \<times> event list"
where
  "send_step hook args filtered name alert st =
     (case st of (res, tr) \<Rightarrow>
       (if dry_run args then
          (case py_item alert ''level'' of
             Inl e \<Rightarrow> (Inl e, tr)
           | Inr lv \<Rightarrow>
               (let tr1 = tr @ [Print (WouldSend lv name)] in
                case py_item alert ''body'' of
                  Inl e \<Rightarrow> (Inl e, tr1)
                | Inr b \<Rightarrow> (Inr (res\<lparr>success := success res + 1\<rparr>), tr1 @ [Print (Payload b)])))
        else
          (case send_alert hook (webhook args) alert name tr of
             (Inl e, tr1) \<Rightarrow> (Inl e, tr1)
           | (Inr ok, tr1) \<Rightarrow>
               (let res1 = (if ok then res\<lparr>success := success res + 1\<rparr>
                            else res\<lparr>failed := failed res + 1\<rparr>) in
                if delay args > 0 then
                  (case last_key filtered of
                     Inl e \<Rightarrow> (Inl e, tr1)
                   | Inr k \<Rightarrow> if name \<noteq> k then (Inr res1, tr1 @ [Sleep (delay args)])
                              else (Inr res1, tr1))
                else (Inr res1, tr1)))))"

fun send_loop ::
  "endpoint \<Rightarrow> send_args \<Rightarrow> (string \<times> json) list \<Rightarrow> (string \<times> json) list \<Rightarrow> results \<times> event list
     \<Rightarrow> (exn + results) \<times> event list"
where
  "send_loop hook args filtered [] st = (Inr (fst st), snd st)"
| "send_loop hook args filtered ((name, alert) # rest) st =
     (case send_step hook args filtered name alert st of
        (Inl e, tr1) \<Rightarrow> (Inl e, tr1)
      | (Inr res1, tr1) \<Rightarrow> send_loop hook args filtered rest (res1, tr1))"

text \<open>
  \<^verbatim>\<open>sorted(filtered.items())\<close>: the pairs are compared by name first, and the names of a
  dict's items differ, so the order is that of the names.
\<close>

definition sorted_items :: "(string \<times> json) list \<Rightarrow> (string \<times> json) list" where
  "sorted_items filtered = sort_key fst filtered"

text \<open>
  \<^verbatim>\<open>main\<close>: the exit code, or the exception that ends the run, and what the run did.
\<close>

definition main_send ::
  "endpoint \<Rightarrow> send_args \<Rightarrow> (string \<times> json) list \<Rightarrow> (exn + int) \<times> event list"
where
  "main_send hook args alerts =
     (if alerts = [] then (Inr 1, [])
      else
        (case filter_alerts args alerts of
           Inl e \<Rightarrow> (Inl e, [])
         | Inr filtered \<Rightarrow>
             (if filtered = [] then (Inr 1, [])
              else
                (case send_loop hook args filtered (sorted_items filtered)
                        (\<lparr>success = 0, failed = 0\<rparr>, []) of
                   (Inl e, tr) \<Rightarrow> (Inl e, tr)
                 | (Inr res, tr) \<Rightarrow>
                     (Inr (if failed res = 0 then 0 else 1),
                      tr @ [Print (Summary (success res) (failed res))])))))"

text \<open>The process's exit status: an uncaught exception ends the interpreter with status 1.\<close>

fun exit_status :: "exn + int \<Rightarrow> int" where
  "exit_status (Inl e) = 1"
| "exit_status (Inr c) = c"

section \<open>trigger\_alerts\_api.py\<close>

text \<open>\<^verbatim>\<open>str(n)\<close> of an integer, for the port in the base URL and the status in an error message.\<close>

definition digit_char :: "nat \<Rightarrow> char" where
  "digit_char d = ''0123456789'' ! d"

fun str_nat :: "nat \<Rightarrow> string" where
  "str_nat n = (if n < 10 then [digit_char n] else str_nat (n div 10) @ [digit_char (n mod 10)])"

declare str_nat.simps [simp del]

definition str_int :: "int \<Rightarrow> string" where
  "str_int i = (if i < 0 then CHR ''-'' # str_nat (nat (- i)) else str_nat (nat i))"

text \<open>
  The parsed command line of the API client; \<^verbatim>\<open>--host\<close> and \<^verbatim>\<open>--user\<close> are required,
  the port and the password are \<^verbatim>\<open>None\<close> when they are not given.
\<close>

record api_args =
  arg_host :: string
  arg_port :: "int option"
  arg_user :: string
  arg_password :: "string option"
  arg_secure :: bool
  arg_discover :: bool
  arg_config :: bool
  arg_delay :: real

text \<open>The fields of a \<^verbatim>\<open>SynologyNotificationTrigger\<close>; \<^verbatim>\<open>session_id\<close> is \<^verbatim>\<open>None\<close> at first.\<close>

record trigger =
  host :: string
  port :: int
  username :: string
  password :: string
  secure :: bool
  session_id :: json
  base_url :: string

definition init_trigger :: "string \<Rightarrow> int \<Rightarrow> string \<Rightarrow> string \<Rightarrow> bool \<Rightarrow> trigger" where
  "init_trigger h p u pw s =
     \<lparr>host = h, port = p, username = u, password = pw, secure = s, session_id = JNull,
      base_url = (if s then ''https'' else ''http'') @ ''://'' @ h @ '':'' @ str_int p @ ''/webapi''\<rparr>"

text \<open>
  What \<^verbatim>\<open>raise_for_status\<close> raises for a status from 400 to 599, as the requests library
  words it.
\<close>

definition http_error_message :: "response \<Rightarrow> string \<Rightarrow> string" where
  "http_error_message resp url =
     str_nat (status_code resp) @
     (if status_code resp < 500 then '' Client Error: '' else '' Server Error: '') @
     reason resp @ '' for url: '' @ url"

definition failure :: "string \<Rightarrow> json" where
  "failure msg = JObj [(''success'', JBool False), (''error'', JStr msg)]"

text \<open>
  \<^verbatim>\<open>_request\<close> (lines 40 to 59). The form fields are the dict \<^verbatim>\<open>data\<close>; the device is
  asked with the number of requests made so far, the URL and the fields.
\<close>

definition request_data :: "trigger \<Rightarrow> string \<Rightarrow> string \<Rightarrow> int \<Rightarrow> (string \<times> json) list \<Rightarrow> json" where
  "request_data self api method version params =
     (let data = [(''api'', JStr api), (''version'', JNum version), (''method'', JStr method)] @ params
      in JObj (if truthy (session_id self) then AList.update ''_sid'' (session_id self) data
               else data))"

definition request ::
  "endpoint \<Rightarrow> trigger \<Rightarrow> event list \<Rightarrow> string \<Rightarrow> string \<Rightarrow> string \<Rightarrow> int \<Rightarrow> (string \<times> json) list
     \<Rightarrow> (exn + json) \<times> event list"
where
  "request nas self tr api path method version params =
     (let url = base_url self @ ''/'' @ path;
          data = request_data self api method version params;
          tr1 = tr @ [Post url data]
      in case nas (length (filter is_Post tr)) url data of
           Raised e \<Rightarrow>
             (if is_RequestException e then (Inr (failure (str_exn e)), tr1) else (Inl e, tr1))
         | Returned resp \<Rightarrow>
             (if 400 \<le> status_code resp \<and> status_code resp < 600 then
                (Inr (failure (http_error_message resp url)), tr1)
              else
                (case body resp of
                   Inl e \<Rightarrow>
                     (if is_RequestException e then (Inr (failure (str_exn e)), tr1)
                      else (Inl e, tr1))
                 | Inr v \<Rightarrow> (Inr v, tr1))))"

text \<open>\<^verbatim>\<open>login\<close> (lines 61 to 82): the new trigger is returned with the result.\<close>

definition login :: "endpoint \<Rightarrow> trigger \<Rightarrow> event list \<Rightarrow> (exn + bool) \<times> trigger \<times> event list" where
  "login nas self tr =
     (case request nas self tr ''SYNO.API.Auth'' ''auth.cgi'' ''login'' 6
             [(''account'', JStr (username self)), (''passwd'', JStr (password self)),
              (''session'', JStr ''NotificationTrigger''), (''format'', JStr ''sid'')] of
        (Inl e, tr1) \<Rightarrow> (Inl e, self, tr1)
      | (Inr result, tr1) \<Rightarrow>
          (case py_get result ''success'' JNull of
             Inl e \<Rightarrow> (Inl e, self, tr1)
           | Inr s \<Rightarrow>
               (if truthy s then
                  (case py_item result ''data'' of
                     Inl e \<Rightarrow> (Inl e, self, tr1)
                   | Inr d \<Rightarrow>
                       (case py_item d ''sid'' of
                          Inl e \<Rightarrow> (Inl e, self, tr1)
                        | Inr sid \<Rightarrow> (Inr True, self\<lparr>session_id := sid\<rparr>, tr1)))
                else (Inr False, self, tr1))))"

text \<open>\<^verbatim>\<open>logout\<close> (lines 84 to 95).\<close>

definition logout :: "endpoint \<Rightarrow> trigger \<Rightarrow> event list \<Rightarrow> (exn + unit) \<times> trigger \<times> event list" where
  "logout nas self tr =
     (if truthy (session_id self) then
        (case request nas self tr ''SYNO.API.Auth'' ''auth.cgi'' ''logout'' 1
                [(''session'', JStr ''NotificationTrigger'')] of
           (Inl e, tr1) \<Rightarrow> (Inl e, self, tr1)
         | (Inr result, tr1) \<Rightarrow> (Inr (), self\<lparr>session_id := JNull\<rparr>, tr1))
      else (Inr (), self, tr))"

definition get_api_info :: "endpoint \<Rightarrow> trigger \<Rightarrow> event list \<Rightarrow> (exn + json) \<times> event list" where
  "get_api_info nas self tr =
     request nas self tr ''SYNO.API.Info'' ''query.cgi'' ''query'' 1 [(''query'', JStr ''all'')]"

text \<open>
  The report lines of the API client are not recorded. Where a line's arguments can
  raise, their evaluation is kept: \<^verbatim>\<open>result.get("success")\<close> raises when the device
  answered with JSON that is not an object.
\<close>

definition checked :: "(exn + json) \<times> event list \<Rightarrow> (exn + json) \<times> event list" where
  "checked r =
     (case r of
        (Inl e, tr1) \<Rightarrow> (Inl e, tr1)
      | (Inr result, tr1) \<Rightarrow>
          (case py_get result ''success'' JNull of
             Inl e \<Rightarrow> (Inl e, tr1)
           | Inr s \<Rightarrow> (Inr result, tr1)))"

definition test_push_notification :: "endpoint \<Rightarrow> trigger \<Rightarrow> event list \<Rightarrow> (exn + json) \<times> event list" where
  "test_push_notification nas self tr =
     checked (request nas self tr ''SYNO.Core.Notification.Push'' ''entry.cgi'' ''send_test'' 1 [])"

definition test_webhook_notification ::
  "endpoint \<Rightarrow> trigger \<Rightarrow> event list \<Rightarrow> json \<Rightarrow> (exn + json) \<times> event list"
where
  "test_webhook_notification nas self tr profile_id =
     checked (request nas self tr ''SYNO.Core.Notification.Push.Webhook.Provider'' ''entry.cgi''
                ''send_test'' 2 [(''profile_id'', profile_id)])"

definition test_mail_notification :: "endpoint \<Rightarrow> trigger \<Rightarrow> event list \<Rightarrow> (exn + json) \<times> event list" where
  "test_mail_notification nas self tr =
     checked (request nas self tr ''SYNO.Core.Notification.Mail'' ''entry.cgi'' ''send_test'' 1 [])"

definition test_sms_notification :: "endpoint \<Rightarrow> trigger \<Rightarrow> event list \<Rightarrow> (exn + json) \<times> event list" where
  "test_sms_notification nas self tr =
     checked (request nas self tr ''SYNO.Core.Notification.SMS'' ''entry.cgi'' ''send_test'' 1 [])"

definition get_system_health :: "endpoint \<Rightarrow> trigger \<Rightarrow> event list \<Rightarrow> (exn + json) \<times> event list" where
  "get_system_health nas self tr =
     checked (request nas self tr ''SYNO.Core.System.Status'' ''entry.cgi'' ''get'' 1 [])"

text \<open>\<^verbatim>\<open>for x in xs: x.get(...)\<close>, as the listings do for their report lines.\<close>

fun each_get :: "json list \<Rightarrow> string \<Rightarrow> exn + unit" where
  "each_get [] k = Inr ()"
| "each_get (x # xs) k = (case py_get x k JNull of Inl e \<Rightarrow> Inl e | Inr v \<Rightarrow> each_get xs k)"

text \<open>
  What the success branch of a listing evaluates for its report:
  \<^verbatim>\<open>result.get("data", {}).get(field, [])\<close>, its \<^verbatim>\<open>len\<close>, and \<^verbatim>\<open>.get\<close> on each entry.
\<close>

definition listing_report :: "json \<Rightarrow> string \<Rightarrow> string \<Rightarrow> exn + unit" where
  "listing_report result field k =
     (case py_get result ''data'' (JObj []) of
        Inl e \<Rightarrow> Inl e
      | Inr d \<Rightarrow>
          (case py_get d field (JList []) of
             Inl e \<Rightarrow> Inl e
           | Inr entries \<Rightarrow>
               (case py_len entries of
                  Inl e \<Rightarrow> Inl e
                | Inr n \<Rightarrow>
                    (case py_iter entries of
                       Inl e \<Rightarrow> Inl e
                     | Inr xs \<Rightarrow> each_get xs k))))"

definition listing ::
  "(exn + json) \<times> event list \<Rightarrow> string \<Rightarrow> string \<Rightarrow> (exn + json) \<times> event list"
where
  "listing r field k =
     (case r of
        (Inl e, tr1) \<Rightarrow> (Inl e, tr1)
      | (Inr result, tr1) \<Rightarrow>
          (case py_get result ''success'' JNull of
             Inl e \<Rightarrow> (Inl e, tr1)
           | Inr s \<Rightarrow>
               (if truthy s then
                  (case listing_report result field k of
                     Inl e \<Rightarrow> (Inl e, tr1)
                   | Inr u \<Rightarrow> (Inr result, tr1))
                else (Inr result, tr1))))"

definition list_webhook_providers :: "endpoint \<Rightarrow> trigger \<Rightarrow> event list \<Rightarrow> (exn + json) \<times> event list" where
  "list_webhook_providers nas self tr =
     listing (request nas self tr ''SYNO.Core.Notification.Push.Webhook.Provider'' ''entry.cgi''
                ''list'' 2 [])
       ''list'' ''target_name''"

definition list_backup_tasks :: "endpoint \<Rightarrow> trigger \<Rightarrow> event list \<Rightarrow> (exn + json) \<times> event list" where
  "list_backup_tasks nas self tr =
     listing (request nas self tr ''SYNO.Backup.Task'' ''entry.cgi'' ''list'' 1 [])
       ''task_list'' ''name''"

text \<open>Sequencing: an exception ends the sequence, with what was done up to it.\<close>

definition andthen ::
  "(exn + 'a) \<times> event list \<Rightarrow> ('a \<Rightarrow> event list \<Rightarrow> (exn + 'b) \<times> event list)
     \<Rightarrow> (exn + 'b) \<times> event list"
where
  "andthen r f = (case r of (Inl e, tr) \<Rightarrow> (Inl e, tr) | (Inr x, tr) \<Rightarrow> f x tr)"

text \<open>\<^verbatim>\<open>time.sleep\<close> refuses a negative length.\<close>

definition py_sleep :: "real \<Rightarrow> event list \<Rightarrow> (exn + unit) \<times> event list" where
  "py_sleep d tr =
     (if d < 0 then (Inl (ValueError ''sleep length must be non-negative''), tr)
      else (Inr (), tr @ [Sleep d]))"

definition get_notification_config :: "endpoint \<Rightarrow> trigger \<Rightarrow> event list \<Rightarrow> (exn + json) \<times> event list" where
  "get_notification_config nas self tr =
     andthen (request nas self tr ''SYNO.Core.Notification.Push.Conf'' ''entry.cgi'' ''get'' 1 [])
       (\<lambda>push tr1.
     andthen (request nas self tr1 ''SYNO.Core.Notification.Mail.Conf'' ''entry.cgi'' ''get'' 1 [])
       (\<lambda>mail tr2.
     andthen (request nas self tr2 ''SYNO.Core.Notification.Webhook'' ''entry.cgi'' ''list'' 1 [])
       (\<lambda>webhook tr3.
     (Inr (JObj [(''push'', push), (''mail'', mail), (''webhook'', webhook)]), tr3))))"

definition get_active_notifications :: "endpoint \<Rightarrow> trigger \<Rightarrow> event list \<Rightarrow> (exn + json) \<times> event list" where
  "get_active_notifications nas self tr =
     andthen (request nas self tr ''SYNO.Core.DSMNotify'' ''entry.cgi'' ''notify'' 1
                [(''action'', JStr ''load'')])
       (\<lambda>result tr1.
     andthen (py_get result ''success'' JNull, tr1)
       (\<lambda>s tr1.
     if truthy s then
       andthen (py_get result ''data'' (JObj []), tr1)
         (\<lambda>data tr1.
       andthen (py_get data ''items'' (JList []), tr1)
         (\<lambda>items tr1.
       andthen (py_len items, tr1)
         (\<lambda>count tr1. (Inr result, tr1))))
     else (Inr result, tr1)))"

text \<open>\<^verbatim>\<open>keyword in s\<close> for strings: \<open>keyword\<close> stands somewhere in \<open>s\<close>.\<close>

fun contains :: "string \<Rightarrow> string \<Rightarrow> bool" where
  "contains keyword [] = (keyword = [])"
| "contains keyword (c # s) = (take (length keyword) (c # s) = keyword \<or> contains keyword s)"

definition api_keywords :: "string list" where
  "api_keywords = [''notif'', ''alert'', ''push'', ''mail'', ''sms'', ''webhook'']"

text \<open>\<^verbatim>\<open>x.items()\<close>: only a dict has the method.\<close>

fun py_items :: "json \<Rightarrow> exn + (string \<times> json) list" where
  "py_items (JObj d) = Inr d"
| "py_items x = Inl (AttributeError ''items'')"

text \<open>
  The loop of \<^verbatim>\<open>discover_notification_apis\<close> (lines 305 to 313), with the list
  \<^verbatim>\<open>notification_apis\<close> as the accumulator.
\<close>

fun scan_apis :: "(string \<times> json) list \<Rightarrow> json list \<Rightarrow> exn + json list" where
  "scan_apis [] notification_apis = Inr notification_apis"
| "scan_apis ((api_name, api_data) # rest) notification_apis =
     (if list_ex (\<lambda>keyword. contains keyword (lower api_name)) api_keywords then
        (case py_get api_data ''path'' JNull of
           Inl e \<Rightarrow> Inl e
         | Inr p \<Rightarrow>
             (case py_get api_data ''minVersion'' JNull of
                Inl e \<Rightarrow> Inl e
              | Inr lo \<Rightarrow>
                  (case py_get api_data ''maxVersion'' JNull of
                     Inl e \<Rightarrow> Inl e
                   | Inr hi \<Rightarrow>
                       scan_apis rest
                         (notification_apis @
                          [JObj [(''name'', JStr api_name), (''path'', p),
                                 (''minVersion'', lo), (''maxVersion'', hi)]]))))
      else scan_apis rest notification_apis)"

definition discover_notification_apis ::
  "endpoint \<Rightarrow> trigger \<Rightarrow> event list \<Rightarrow> (exn + json list) \<times> event list"
where
  "discover_notification_apis nas self tr =
     andthen (get_api_info nas self tr)
       (\<lambda>api_info tr1.
     andthen (py_get api_info ''success'' JNull, tr1)
       (\<lambda>s tr1.
     if \<not> truthy s then (Inr [], tr1)
     else
       andthen (py_get api_info ''data'' (JObj []), tr1)
         (\<lambda>data tr1.
       andthen (py_items data, tr1)
         (\<lambda>items tr1. (scan_apis items [], tr1)))))"

text \<open>
  The loop over the providers in \<^verbatim>\<open>run_all_tests\<close> (lines 338 to 341); \<^verbatim>\<open>results\<close> is
  the dict of that name.
\<close>

fun webhook_tests ::
  "endpoint \<Rightarrow> trigger \<Rightarrow> real \<Rightarrow> json list \<Rightarrow> (string \<times> json) list \<Rightarrow> event list
     \<Rightarrow> (exn + (string \<times> json) list) \<times> event list"
where
  "webhook_tests nas self d [] results tr = (Inr results, tr)"
| "webhook_tests nas self d (provider # rest) results tr =
     andthen (py_get provider ''profile_id'' (JNum 1), tr)
       (\<lambda>profile_id tr.
     andthen (test_webhook_notification nas self tr profile_id)
       (\<lambda>r tr1.
     andthen (py_sleep d tr1)
       (\<lambda>u tr2. webhook_tests nas self d rest (AList.update ''webhook'' r results) tr2)))"

text \<open>\<^verbatim>\<open>run_all_tests\<close> (lines 321 to 353).\<close>

definition run_all_tests ::
  "endpoint \<Rightarrow> trigger \<Rightarrow> real \<Rightarrow> event list \<Rightarrow> (exn + (string \<times> json) list) \<times> event list"
where
  "run_all_tests nas self d tr =
     (let results = [(''webhook'', JNull), (''push'', JNull), (''mail'', JNull),
                     (''sms'', JNull), (''health'', JNull), (''active'', JNull)]
      in
     andthen (list_webhook_providers nas self tr)
       (\<lambda>providers tr1.
     andthen (py_get providers ''success'' JNull, tr1)
       (\<lambda>s tr1.
     andthen
       (if truthy s then
          andthen (py_get providers ''data'' (JObj []), tr1)
            (\<lambda>data tr1.
          andthen (py_get data ''list'' (JList []), tr1)
            (\<lambda>provider_list tr1.
          andthen (py_iter provider_list, tr1)
            (\<lambda>ps tr1. webhook_tests nas self d ps results tr1)))
        else (Inr results, tr1))
       (\<lambda>results tr2.
     andthen (test_push_notification nas self tr2)
       (\<lambda>push tr3.
     andthen (py_sleep d tr3)
       (\<lambda>u tr4.
     andthen (test_sms_notification nas self tr4)
       (\<lambda>sms tr5.
     andthen (py_sleep d tr5)
       (\<lambda>u tr6.
     andthen (get_system_health nas self tr6)
       (\<lambda>health tr7.
     andthen (get_active_notifications nas self tr7)
       (\<lambda>active tr8.
     (Inr (AList.update ''active'' active
            (AList.update ''health'' health
              (AList.update ''sms'' sms
                (AList.update ''push'' push results)))), tr8)))))))))))"

text \<open>\<^verbatim>\<open>sum(1 for r in results.values() if r and r.get("success"))\<close>.\<close>

fun success_count :: "json list \<Rightarrow> exn + nat" where
  "success_count [] = Inr 0"
| "success_count (r # rs) =
     (if truthy r then
        (case py_get r ''success'' JNull of
           Inl e \<Rightarrow> Inl e
         | Inr s \<Rightarrow>
             (case success_count rs of
                Inl e \<Rightarrow> Inl e
              | Inr n \<Rightarrow> Inr (if truthy s then n + 1 else n)))
      else success_count rs)"

text \<open>The body of the \<^verbatim>\<open>try\<close> statement of \<^verbatim>\<open>main\<close> (lines 417 to 437).\<close>

definition in_session :: "endpoint \<Rightarrow> api_args \<Rightarrow> trigger \<Rightarrow> event list \<Rightarrow> (exn + unit) \<times> event list" where
  "in_session nas args self tr =
     (if arg_discover args then
        andthen (discover_notification_apis nas self tr) (\<lambda>apis tr1. (Inr (), tr1))
      else if arg_config args then
        andthen (get_notification_config nas self tr) (\<lambda>config tr1. (Inr (), tr1))
      else
        andthen (run_all_tests nas self (arg_delay args) tr)
          (\<lambda>results tr1.
        andthen (list_backup_tasks nas self tr1)
          (\<lambda>tasks tr2.
        andthen (success_count (map snd results), tr2)
          (\<lambda>n tr2. (Inr (), tr2 @ [Print (TestsCompleted (length results) n)])))))"

text \<open>
  \<^verbatim>\<open>main\<close> (lines 385 to 442). \<open>typed\<close> is what the user types at the password prompt,
  which is read only when \<^verbatim>\<open>--password\<close> is missing or empty. The \<^verbatim>\<open>finally\<close> clause
  runs \<^const>\<open>logout\<close> whatever the body did; an exception of the body is raised again
  after it, unless \<^const>\<open>logout\<close> raised one itself.
\<close>

definition new_trigger :: "string \<Rightarrow> api_args \<Rightarrow> trigger" where
  "new_trigger typed args =
     init_trigger (arg_host args)
       (case arg_port args of
          None \<Rightarrow> (if arg_secure args then 5001 else 5000)
        | Some p \<Rightarrow> (if p \<noteq> 0 then p else if arg_secure args then 5001 else 5000))
       (arg_user args)
       (if truthy_arg (arg_password args) then the (arg_password args) else typed)
       (arg_secure args)"

definition main_api :: "endpoint \<Rightarrow> string \<Rightarrow> api_args \<Rightarrow> (exn + int) \<times> event list" where
  "main_api nas typed args =
     (case login nas (new_trigger typed args) [] of
        (Inl e, self1, tr1) \<Rightarrow> (Inl e, tr1)
      | (Inr False, self1, tr1) \<Rightarrow> (Inr 1, tr1)
      | (Inr True, self1, tr1) \<Rightarrow>
          (case in_session nas args self1 tr1 of
             (r, tr2) \<Rightarrow>
               (case logout nas self1 tr2 of
                  (Inl e, self2, tr3) \<Rightarrow> (Inl e, tr3)
                | (Inr u, self2, tr3) \<Rightarrow>
                    (case r of Inl e \<Rightarrow> (Inl e, tr3) | Inr v \<Rightarrow> (Inr 0, tr3)))))"

section \<open>The vocabulary of the claims\<close>

subsection \<open>Fixtures and filters\<close>

text \<open>
  A fixture as the filter needs it: an object whose category, when it has one, is a
  string.
\<close>

fun category_ok :: "json \<Rightarrow> bool" where
  "category_ok (JObj d) =
     (case map_of d ''category'' of None \<Rightarrow> True | Some (JStr c) \<Rightarrow> True | Some v \<Rightarrow> False)"
| "category_ok x = False"

text \<open>A fixture as the sender needs it: an object with a level and a body.\<close>

fun sendable :: "json \<Rightarrow> bool" where
  "sendable (JObj d) = (map_of d ''level'' \<noteq> None \<and> map_of d ''body'' \<noteq> None)"
| "sendable x = False"

text \<open>A fixture's category label (empty when it has none) and its level.\<close>

fun fixture_category :: "json \<Rightarrow> string" where
  "fixture_category (JObj d) = (case map_of d ''category'' of Some (JStr c) \<Rightarrow> c | _ \<Rightarrow> [])"
| "fixture_category x = []"

fun fixture_level :: "json \<Rightarrow> json option" where
  "fixture_level (JObj d) = map_of d ''level''"
| "fixture_level x = None"


definition satisfies_nonempty :: "send_args \<Rightarrow> string \<Rightarrow> json \<Rightarrow> bool" where
  "satisfies_nonempty args name alert =
     ((case alert_type args of None \<Rightarrow> True | Some t \<Rightarrow> t = [] \<or> name = t) \<and>
      (case category args of None \<Rightarrow> True
       | Some c \<Rightarrow> c = [] \<or> lower (fixture_category alert) = lower c) \<and>
      (case level args of None \<Rightarrow> True
       | Some l \<Rightarrow> l = [] \<or> fixture_level alert = Some (JStr l)))"



text \<open>The names on the "would send" lines of a run, in the order they were printed.\<close>

fun would_send_names :: "event list \<Rightarrow> string list" where
  "would_send_names [] = []"
| "would_send_names (Print (WouldSend lv name) # es) = name # would_send_names es"
| "would_send_names (e # es) = would_send_names es"

subsection \<open>Calls of the API client\<close>

text \<open>
  The API and the method that a request names in its form fields, and the calls of a
  run in the order they were issued.
\<close>

fun call_of :: "event \<Rightarrow> (string \<times> string) option" where
  "call_of (Post u (JObj d)) =
     (case (map_of d ''api'', map_of d ''method'') of
        (Some (JStr a), Some (JStr m)) \<Rightarrow> Some (a, m)
      | _ \<Rightarrow> None)"
| "call_of e = None"

definition calls :: "event list \<Rightarrow> (string \<times> string) list" where
  "calls tr = List.map_filter call_of tr"

text \<open>
  \<open>adds A tr tr1\<close>: the run went from \<open>tr\<close> to \<open>tr1\<close> by events whose requests
  are calls of \<open>A\<close>, each request naming its API and method.
\<close>

definition adds :: "(string \<times> string) set \<Rightarrow> event list \<Rightarrow> event list \<Rightarrow> bool" where
  "adds A tr tr1 =
     (\<exists>new. tr1 = tr @ new \<and> set (calls new) \<subseteq> A \<and>
        length (filter is_Post new) = length (calls new))"

text \<open>The calls that a run may make between login and logout, by the mode of the run.\<close>

definition session_calls :: "api_args \<Rightarrow> (string \<times> string) list" where
  "session_calls args =
     (if arg_discover args then [(''SYNO.API.Info'', ''query'')]
      else if arg_config args then
        [(''SYNO.Core.Notification.Push.Conf'', ''get''),
         (''SYNO.Core.Notification.Mail.Conf'', ''get''),
         (''SYNO.Core.Notification.Webhook'', ''list'')]
      else
        [(''SYNO.Core.Notification.Push.Webhook.Provider'', ''list''),
         (''SYNO.Core.Notification.Push.Webhook.Provider'', ''send_test''),
         (''SYNO.Core.Notification.Push'', ''send_test''),
         (''SYNO.Core.Notification.SMS'', ''send_test''),
         (''SYNO.Core.System.Status'', ''get''),
         (''SYNO.Core.DSMNotify'', ''notify''),
         (''SYNO.Backup.Task'', ''list'')])"

text \<open>
  Whether \<^verbatim>\<open>trigger.login()\<close> returned \<^verbatim>\<open>True\<close> in a run, and the session token it
  stored.
\<close>

definition logged_in :: "endpoint \<Rightarrow> string \<Rightarrow> api_args \<Rightarrow> bool" where
  "logged_in nas typed args = (fst (login nas (new_trigger typed args) []) = Inr True)"

definition token :: "endpoint \<Rightarrow> string \<Rightarrow> api_args \<Rightarrow> json" where
  "token nas typed args = session_id (fst (snd (login nas (new_trigger typed args) [])))"

subsection \<open>Discovery\<close>






section \<open>Concrete runs\<close>

subsection \<open>Fixtures, options and a webhook\<close>

definition fixture :: "string \<Rightarrow> string \<Rightarrow> string \<Rightarrow> json" where
  "fixture lv cat title =
     JObj [(''level'', JStr lv), (''category'', JStr cat), (''body'', JObj [(''title'', JStr title)])]"

definition two_fixtures :: "(string \<times> json) list" where
  "two_fixtures =
     [(''server_offline'', fixture ''ERROR'' ''Storage'' ''Server offline''),
      (''disk_failing'', fixture ''WARN'' ''Hardware'' ''Disk failing'')]"

definition bare_fixtures :: "(string \<times> json) list" where
  "bare_fixtures =
     [(''no_fields'', JObj [(''body'', JObj [])]),
      (''disk_failing'', fixture ''WARN'' ''Hardware'' ''Disk failing'')]"

definition accepting :: endpoint where
  "accepting n url p =
     Returned \<lparr>status_code = 200, reason = ''OK'', body = Inl (ValueError ''no JSON'')\<rparr>"

definition send_all :: send_args where
  "send_all = \<lparr>webhook = ''https://n8n.example/webhook'', alert_type = None, category = None,
      level = None, delay = 1, dry_run = False\<rparr>"

text \<open>
  The same fixtures as a directory listing may hand them over, the later name first; and
  a webhook that answers every POST with status 500.
\<close>

definition glob_order_fixtures :: "(string \<times> json) list" where
  "glob_order_fixtures =
     [(''volume_degraded'', fixture ''ERROR'' ''Storage'' ''Volume degraded''),
      (''disk_failing'', fixture ''WARN'' ''Hardware'' ''Disk failing'')]"


subsection \<open>Devices and command lines\<close>

text \<open>
  Devices that answer by the position of the request in the run: the login is request 0.
  \<open>nas_refusing\<close> lets the login through and fails every later call;
  \<open>nas_one_provider\<close> lists one webhook provider and accepts every call;
  \<open>nas_empty_sid\<close> reports success with an empty session token; \<open>nas_denying\<close>
  refuses the login; \<open>nas_catalog\<close> answers with an API catalog; the last three fail at
  the transport.
\<close>

definition reply :: "json \<Rightarrow> outcome" where
  "reply v = Returned \<lparr>status_code = 200, reason = ''OK'', body = Inr v\<rparr>"

definition login_reply :: "string \<Rightarrow> json" where
  "login_reply sid = JObj [(''success'', JBool True), (''data'', JObj [(''sid'', JStr sid)])]"


definition nas_one_provider :: endpoint where
  "nas_one_provider n url p =
     (if n = 0 then reply (login_reply ''abc'')
      else if n = 1 then
        reply (JObj [(''success'', JBool True),
                     (''data'', JObj [(''list'', JList [JObj [(''profile_id'', JNum 7),
                                                            (''target_name'', JStr ''n8n'')]])])])
      else reply (JObj [(''success'', JBool True)]))"

definition nas_empty_sid :: endpoint where
  "nas_empty_sid n url p = reply (login_reply [])"

definition nas_denying :: endpoint where
  "nas_denying n url p = reply (JObj [(''success'', JBool False), (''error'', JStr ''auth failed'')])"


definition nas_down :: endpoint where
  "nas_down n url p = Raised (ConnectionError ''Connection refused'')"

definition nas_slow :: endpoint where
  "nas_slow n url p = Raised (Timeout ''Read timed out. (read timeout=30)'')"

definition nas_unavailable :: endpoint where
  "nas_unavailable n url p =
     Returned \<lparr>status_code = 503, reason = ''Service Unavailable'', body = Inr (JObj [])\<rparr>"

definition default_args :: api_args where
  "default_args = \<lparr>arg_host = ''nas'', arg_port = None, arg_user = ''admin'',
     arg_password = Some ''secret'', arg_secure = False, arg_discover = False, arg_config = False,
     arg_delay = 2\<rparr>"

definition discover_args :: api_args where
  "discover_args = default_args\<lparr>arg_discover := True\<rparr>"

section \<open>The Alert Replayer\<close>

subsection \<open>The filter\<close>

text \<open>On a well-typed fixture the three tests of the loop decide \<^const>\<open>satisfies_nonempty\<close>.\<close>

lemma keep_alert_satisfies:
  "category_ok alert \<Longrightarrow> keep_alert args name alert = Inr (satisfies_nonempty args name alert)"
  by (cases alert)
     (auto simp: keep_alert_def satisfies_nonempty_def
           split: option.splits json.splits bool.splits sum.splits)











lemma set_update_subset: "set (AList.update k v al) \<subseteq> insert (k, v) (set al)"
  by (induction al) auto

lemma keep_alert_total: "category_ok alert \<Longrightarrow> \<exists>b. keep_alert args name alert = Inr b"
  by (simp add: keep_alert_satisfies)

lemma filter_loop_total:
  "\<forall>kv \<in> set xs. category_ok (snd kv) \<Longrightarrow>
   \<exists>fs. filter_loop args xs acc = Inr fs \<and>
     set fs \<subseteq> set acc \<union> {kv \<in> set xs. keep_alert args (fst kv) (snd kv) = Inr True}"
proof (induction xs arbitrary: acc)
  case Nil
  then show ?case by simp
next
  case (Cons x xs)
  obtain name alert where x: "x = (name, alert)" by (cases x)
  obtain b where b: "keep_alert args name alert = Inr b"
    using Cons.prems x keep_alert_total [of alert args name] by auto
  show ?case
  proof (cases b)
    case True
    obtain fs where fs: "filter_loop args xs (AList.update name alert acc) = Inr fs"
      "set fs \<subseteq> set (AList.update name alert acc) \<union>
         {kv \<in> set xs. keep_alert args (fst kv) (snd kv) = Inr True}"
      using Cons.IH [of "AList.update name alert acc"] Cons.prems by auto
    have "set fs \<subseteq> set acc \<union> {kv \<in> set (x # xs). keep_alert args (fst kv) (snd kv) = Inr True}"
      using fs(2) set_update_subset [of name alert acc] b True x by auto
    then show ?thesis using fs(1) b True x by simp
  next
    case False
    obtain fs where fs: "filter_loop args xs acc = Inr fs"
      "set fs \<subseteq> set acc \<union> {kv \<in> set xs. keep_alert args (fst kv) (snd kv) = Inr True}"
      using Cons.IH [of acc] Cons.prems by auto
    have "set fs \<subseteq> set acc \<union> {kv \<in> set (x # xs). keep_alert args (fst kv) (snd kv) = Inr True}"
      using fs(2) by auto
    then show ?thesis using fs(1) b False x by simp
  qed
qed

lemma keep_alert_no_category:
  "map_of d ''category'' = None \<Longrightarrow> category args = Some c \<Longrightarrow> c \<noteq> [] \<Longrightarrow>
   keep_alert args name (JObj d) = Inr False"
  by (auto simp: keep_alert_def lower_def)

lemma keep_alert_default_category:
  "map_of d ''category'' = None \<Longrightarrow>
   keep_alert args name (JObj d) = keep_alert args name (JObj ((''category'', JStr []) # d))"
  by (simp add: keep_alert_def split: bool.splits)

lemma keep_alert_no_level:
  "map_of d ''level'' = None \<Longrightarrow> level args = Some l \<Longrightarrow> l \<noteq> [] \<Longrightarrow>
   keep_alert args name (JObj d) \<noteq> Inr True"
  by (auto simp: keep_alert_def split: sum.splits bool.splits)

text \<open>
  Claim C10. A fixture without a category is filtered as the same fixture with the
  category \<^verbatim>\<open>""\<close>: the filter returns on it, and excludes it when a non-empty
  \<^verbatim>\<open>--category\<close> is given. A fixture without a level never passes a \<^verbatim>\<open>--level\<close> filter
  (one of INFO, WARN, ERROR), and the filter returns on it when its category is absent
  or a string. Over a whole mapping of such fixtures the filter loop returns, and keeps
  only fixtures that passed the three tests.
\<close>

theorem filter_total_on_missing_fields:
  "(map_of d ''category'' = None \<longrightarrow>
      keep_alert args name (JObj d) = keep_alert args name (JObj ((''category'', JStr []) # d)) \<and>
      (\<exists>b. keep_alert args name (JObj d) = Inr b) \<and>
      (\<forall>c. category args = Some c \<and> c \<noteq> [] \<longrightarrow> keep_alert args name (JObj d) = Inr False)) \<and>
   (map_of d ''level'' = None \<longrightarrow>
      (category_ok (JObj d) \<longrightarrow> (\<exists>b. keep_alert args name (JObj d) = Inr b)) \<and>
      (\<forall>l. level args = Some l \<and> l \<in> set [''INFO'', ''WARN'', ''ERROR''] \<longrightarrow>
         keep_alert args name (JObj d) \<noteq> Inr True)) \<and>
   ((\<forall>kv \<in> set alerts. category_ok (snd kv)) \<longrightarrow>
      (\<exists>fs. filter_alerts args alerts = Inr fs \<and>
         set fs \<subseteq> {kv \<in> set alerts. keep_alert args (fst kv) (snd kv) = Inr True}))"
proof (intro conjI impI allI)
  assume c: "map_of d ''category'' = None"
  show "keep_alert args name (JObj d) = keep_alert args name (JObj ((''category'', JStr []) # d))"
    using c by (rule keep_alert_default_category)
  show "\<exists>b. keep_alert args name (JObj d) = Inr b"
    using c by (simp add: keep_alert_total)
  fix c' assume "category args = Some c' \<and> c' \<noteq> []"
  then show "keep_alert args name (JObj d) = Inr False"
    using c keep_alert_no_category by blast
next
  assume "map_of d ''level'' = None" and "category_ok (JObj d)"
  then show "\<exists>b. keep_alert args name (JObj d) = Inr b"
    by (simp add: keep_alert_total)
next
  fix l
  assume "map_of d ''level'' = None" and "level args = Some l \<and> l \<in> set [''INFO'', ''WARN'', ''ERROR'']"
  then show "keep_alert args name (JObj d) \<noteq> Inr True"
    using keep_alert_no_level [of d args l name] by auto
next
  assume "\<forall>kv \<in> set alerts. category_ok (snd kv)"
  then show "\<exists>fs. filter_alerts args alerts = Inr fs \<and>
         set fs \<subseteq> {kv \<in> set alerts. keep_alert args (fst kv) (snd kv) = Inr True}"
    using filter_loop_total [of alerts args "[]"] by (simp add: filter_alerts_def)
qed

theorem filter_total_on_missing_fields_witness:
  "keep_alert (send_all\<lparr>category := Some ''Storage''\<rparr>) ''no_fields'' (JObj [(''body'', JObj [])]) =
     Inr False \<and>
   keep_alert (send_all\<lparr>level := Some ''WARN''\<rparr>) ''no_fields'' (JObj [(''body'', JObj [])]) \<noteq>
     Inr True \<and>
   (\<exists>fs. filter_alerts (send_all\<lparr>level := Some ''WARN''\<rparr>) bare_fixtures = Inr fs)"
proof -
  have no_cat: "map_of [(''body'', JObj [])] ''category'' = None"
    and no_lvl: "map_of [(''body'', JObj [])] ''level'' = None" by simp_all
  have cat: "category (send_all\<lparr>category := Some ''Storage''\<rparr>) = Some ''Storage'' \<and> ''Storage'' \<noteq> []"
    by simp
  have lvl: "level (send_all\<lparr>level := Some ''WARN''\<rparr>) = Some ''WARN'' \<and>
      ''WARN'' \<in> set [''INFO'', ''WARN'', ''ERROR'']" by simp
  have a: "keep_alert (send_all\<lparr>category := Some ''Storage''\<rparr>) ''no_fields''
      (JObj [(''body'', JObj [])]) = Inr False"
    using no_cat cat filter_total_on_missing_fields
      [of "[(''body'', JObj [])]" "send_all\<lparr>category := Some ''Storage''\<rparr>" "''no_fields''" "[]"]
    by blast
  have b: "keep_alert (send_all\<lparr>level := Some ''WARN''\<rparr>) ''no_fields''
      (JObj [(''body'', JObj [])]) \<noteq> Inr True"
    using no_lvl lvl filter_total_on_missing_fields
      [of "[(''body'', JObj [])]" "send_all\<lparr>level := Some ''WARN''\<rparr>" "''no_fields''" "[]"]
    by blast
  have c: "\<exists>fs. filter_alerts (send_all\<lparr>level := Some ''WARN''\<rparr>) bare_fixtures = Inr fs"
    using filter_total_on_missing_fields
      [of "[]" "send_all\<lparr>level := Some ''WARN''\<rparr>" "[]" bare_fixtures]
    by (auto simp: bare_fixtures_def fixture_def)
  show ?thesis using a b c by simp
qed

subsection \<open>Dry run\<close>

lemma would_send_names_append:
  "would_send_names (xs @ ys) = would_send_names xs @ would_send_names ys"
  by (induction xs rule: would_send_names.induct) simp_all

lemma send_step_dry_posts:
  "dry_run args \<Longrightarrow>
   filter is_Post (snd (send_step hook args filtered name alert st)) = filter is_Post (snd st)"
  by (cases st) (auto simp: send_step_def Let_def split: sum.splits)

lemma send_loop_dry_posts:
  "dry_run args \<Longrightarrow>
   filter is_Post (snd (send_loop hook args filtered items st)) = filter is_Post (snd st)"
proof (induction items arbitrary: st)
  case Nil
  then show ?case by simp
next
  case (Cons x items)
  obtain name alert where x: "x = (name, alert)" by (cases x)
  obtain r tr1 where s: "send_step hook args filtered name alert st = (r, tr1)"
    by (cases "send_step hook args filtered name alert st")
  have t: "filter is_Post tr1 = filter is_Post (snd st)"
    using send_step_dry_posts [OF Cons.prems, of hook filtered name alert st] s by simp
  show ?case
  proof (cases r)
    case (Inl e)
    then show ?thesis using x s t by simp
  next
    case (Inr res1)
    then show ?thesis using x s t Cons.IH [OF Cons.prems, of "(res1, tr1)"] by simp
  qed
qed

lemma main_send_dry_posts:
  assumes "dry_run args"
  shows "filter is_Post (snd (main_send hook args alerts)) = []"
proof -
  have h: "filter is_Post tr = []"
    if "send_loop hook args filtered (sorted_items filtered) (\<lparr>success = 0, failed = 0\<rparr>, []) = (r, tr)"
    for filtered r tr
    using that send_loop_dry_posts [OF assms, of hook filtered "sorted_items filtered"
        "(\<lparr>success = 0, failed = 0\<rparr>, [])"] by simp
  show ?thesis
    by (auto simp: main_send_def split: sum.splits prod.splits dest: h)
qed

lemma send_step_dry:
  "dry_run args \<Longrightarrow> sendable alert \<Longrightarrow>
   \<exists>tr1. send_step hook args filtered name alert (res, tr) =
           (Inr (res\<lparr>success := success res + 1\<rparr>), tr1) \<and>
         would_send_names tr1 = would_send_names tr @ [name]"
  by (cases alert) (auto simp: send_step_def Let_def would_send_names_append)

lemma send_loop_dry:
  "dry_run args \<Longrightarrow> \<forall>kv \<in> set items. sendable (snd kv) \<Longrightarrow>
   \<exists>res1 tr1. send_loop hook args filtered items (res, tr) = (Inr res1, tr1) \<and>
         failed res1 = failed res \<and>
         would_send_names tr1 = would_send_names tr @ map fst items"
proof (induction items arbitrary: res tr)
  case Nil
  then show ?case by simp
next
  case (Cons x items)
  obtain name alert where x: "x = (name, alert)" by (cases x)
  obtain tr1 where s: "send_step hook args filtered name alert (res, tr) =
           (Inr (res\<lparr>success := success res + 1\<rparr>), tr1)"
    and w: "would_send_names tr1 = would_send_names tr @ [name]"
    using send_step_dry [of args alert hook filtered name res tr] Cons.prems x by auto
  obtain res2 tr2 where l: "send_loop hook args filtered items (res\<lparr>success := success res + 1\<rparr>, tr1) =
      (Inr res2, tr2)" and f: "failed res2 = failed (res\<lparr>success := success res + 1\<rparr>)"
    and w2: "would_send_names tr2 = would_send_names tr1 @ map fst items"
    using Cons.IH [of "res\<lparr>success := success res + 1\<rparr>" tr1] Cons.prems by auto
  show ?case using x s l f w w2 by simp
qed

text \<open>
  Claim C9. In dry-run mode no run makes a POST. When the filtered subset is not empty
  (and its fixtures have a level and a body, which the report line prints), the run
  ends with exit code 0 and its "would send" lines name the fixtures of the subset, one
  line each, in the order of their names.
\<close>

theorem dry_run_reports_without_posting:
  assumes "dry_run args"
  shows "filter is_Post (snd (main_send hook args alerts)) = [] \<and>
     (\<forall>filtered. filter_alerts args alerts = Inr filtered \<and> filtered \<noteq> [] \<and>
          (\<forall>kv \<in> set filtered. sendable (snd kv)) \<longrightarrow>
        fst (main_send hook args alerts) = Inr 0 \<and>
        would_send_names (snd (main_send hook args alerts)) = map fst (sorted_items filtered))"
proof (intro conjI allI impI)
  show "filter is_Post (snd (main_send hook args alerts)) = []"
    using assms by (rule main_send_dry_posts)
next
  fix filtered
  assume a: "filter_alerts args alerts = Inr filtered \<and> filtered \<noteq> [] \<and>
          (\<forall>kv \<in> set filtered. sendable (snd kv))"
  then have ne: "alerts \<noteq> []" by (auto simp: filter_alerts_def)
  have "\<forall>kv \<in> set (sorted_items filtered). sendable (snd kv)"
    using a by (simp add: sorted_items_def)
  then obtain res1 tr1 where
    l: "send_loop hook args filtered (sorted_items filtered) (\<lparr>success = 0, failed = 0\<rparr>, []) =
          (Inr res1, tr1)"
    and f: "failed res1 = 0"
    and w: "would_send_names tr1 = map fst (sorted_items filtered)"
    using send_loop_dry [OF assms, of "sorted_items filtered" hook filtered
        "\<lparr>success = 0, failed = 0\<rparr>" "[]"] by auto
  show "fst (main_send hook args alerts) = Inr 0"
    using a ne l f by (simp add: main_send_def)
  show "would_send_names (snd (main_send hook args alerts)) = map fst (sorted_items filtered)"
    using a ne l w by (simp add: main_send_def would_send_names_append)
qed

theorem dry_run_reports_without_posting_witness:
  "filter is_Post (snd (main_send accepting (send_all\<lparr>dry_run := True\<rparr>) two_fixtures)) = [] \<and>
   fst (main_send accepting (send_all\<lparr>dry_run := True\<rparr>) two_fixtures) = Inr 0 \<and>
   would_send_names (snd (main_send accepting (send_all\<lparr>dry_run := True\<rparr>) two_fixtures)) =
     [''disk_failing'', ''server_offline'']"
proof -
  have f: "filter_alerts (send_all\<lparr>dry_run := True\<rparr>) two_fixtures = Inr two_fixtures"
    by (simp add: filter_alerts_def keep_alert_def send_all_def two_fixtures_def)
  have s: "two_fixtures \<noteq> [] \<and> (\<forall>kv \<in> set two_fixtures. sendable (snd kv))"
    by (simp add: two_fixtures_def fixture_def)
  have o: "map fst (sorted_items two_fixtures) = [''disk_failing'', ''server_offline'']"
    by (simp add: sorted_items_def two_fixtures_def)
  have d: "dry_run (send_all\<lparr>dry_run := True\<rparr>)" by simp
  show ?thesis
    using dry_run_reports_without_posting [OF d, of accepting two_fixtures] f s o by simp
qed

subsection \<open>Counting the sends\<close>



subsection \<open>The pause between sends\<close>

text \<open>
  Claim C4, at fixtures loaded with the later name first. The fixtures are sent in the
  order of their names, but the pause is skipped after the fixture that was loaded
  last (\<^verbatim>\<open>list(filtered.keys())[-1]\<close>), not after the one that is sent last: the run
  sends \<open>disk_failing\<close>, does not pause, sends \<open>volume_degraded\<close>, and pauses
  after this final send.
\<close>

theorem delay_follows_last_loaded:
  "main_send accepting send_all glob_order_fixtures =
     (Inr 0,
      [Post ''https://n8n.example/webhook'' (JObj [(''title'', JStr ''Disk failing'')]),
       Print (Sent (JStr ''WARN'') ''disk_failing''),
       Post ''https://n8n.example/webhook'' (JObj [(''title'', JStr ''Volume degraded'')]),
       Print (Sent (JStr ''ERROR'') ''volume_degraded''),
       Sleep 1,
       Print (Summary 2 0)])"
  by (simp add: main_send_def filter_alerts_def keep_alert_def send_all_def glob_order_fixtures_def
      fixture_def sorted_items_def send_step_def send_alert_def accepting_def last_key_def)

section \<open>The Managed API Session Client\<close>

subsection \<open>What each operation adds to the run\<close>

text \<open>The definitions that a concrete run unfolds.\<close>

lemmas api_run_defs =
  main_api_def login_def logout_def request_def request_data_def new_trigger_def init_trigger_def
  in_session_def run_all_tests_def andthen_def list_webhook_providers_def listing_def
  listing_report_def test_push_notification_def test_webhook_notification_def
  test_sms_notification_def get_system_health_def get_active_notifications_def
  list_backup_tasks_def checked_def py_sleep_def discover_notification_apis_def get_api_info_def
  get_notification_config_def reply_def login_reply_def default_args_def discover_args_def Let_def

lemma calls_append: "calls (xs @ ys) = calls xs @ calls ys"
  by (simp add: calls_def map_filter_def)

lemma calls_Nil: "calls [] = []"
  by (simp add: calls_def map_filter_def)

lemma call_of_request:
  "call_of (Post url (request_data self api method version params)) = Some (api, method)"
  by (simp add: request_data_def Let_def update_conv')

lemma calls_request: "calls [Post url (request_data self api method version params)] = [(api, method)]"
  by (simp add: calls_def map_filter_def call_of_request)

lemma request_trace:
  "snd (request nas self tr api path method version params) =
     tr @ [Post (base_url self @ ''/'' @ path) (request_data self api method version params)]"
  by (simp add: request_def Let_def split: outcome.splits sum.splits)

lemma adds_refl: "adds A tr tr"
  by (simp add: adds_def calls_Nil)

lemma adds_step:
  "adds A tr tr0 \<Longrightarrow> set (calls new) \<subseteq> A \<Longrightarrow>
   length (filter is_Post new) = length (calls new) \<Longrightarrow> adds A tr (tr0 @ new)"
  by (auto simp: adds_def calls_append)

lemma adds_request:
  "adds A tr tr0 \<Longrightarrow> (api, method) \<in> A \<Longrightarrow>
   adds A tr (snd (request nas self tr0 api path method version params))"
  by (simp add: request_trace adds_step calls_request)

lemma adds_andthen:
  assumes "adds A tr (snd r)" and "\<And>x tr1. adds A tr tr1 \<Longrightarrow> adds A tr (snd (f x tr1))"
  shows "adds A tr (snd (andthen r f))"
proof (cases r)
  case (Pair v tr1)
  then show ?thesis using assms by (cases v) (auto simp: andthen_def)
qed

lemma snd_checked: "snd (checked r) = snd r"
  by (auto simp: checked_def split: prod.splits sum.splits)

lemma snd_listing: "snd (listing r field k) = snd r"
  by (auto simp: listing_def split: prod.splits sum.splits)

lemma adds_sleep: "adds A tr tr0 \<Longrightarrow> adds A tr (snd (py_sleep d tr0))"
  by (auto simp: py_sleep_def adds_step calls_def map_filter_def)

lemma adds_push:
  "adds A tr tr0 \<Longrightarrow> (''SYNO.Core.Notification.Push'', ''send_test'') \<in> A \<Longrightarrow>
   adds A tr (snd (test_push_notification nas self tr0))"
  by (simp add: test_push_notification_def snd_checked adds_request)

lemma adds_webhook:
  "adds A tr tr0 \<Longrightarrow> (''SYNO.Core.Notification.Push.Webhook.Provider'', ''send_test'') \<in> A \<Longrightarrow>
   adds A tr (snd (test_webhook_notification nas self tr0 profile_id))"
  by (simp add: test_webhook_notification_def snd_checked adds_request)

lemma adds_sms:
  "adds A tr tr0 \<Longrightarrow> (''SYNO.Core.Notification.SMS'', ''send_test'') \<in> A \<Longrightarrow>
   adds A tr (snd (test_sms_notification nas self tr0))"
  by (simp add: test_sms_notification_def snd_checked adds_request)

lemma adds_health:
  "adds A tr tr0 \<Longrightarrow> (''SYNO.Core.System.Status'', ''get'') \<in> A \<Longrightarrow>
   adds A tr (snd (get_system_health nas self tr0))"
  by (simp add: get_system_health_def snd_checked adds_request)

lemma adds_providers:
  "adds A tr tr0 \<Longrightarrow> (''SYNO.Core.Notification.Push.Webhook.Provider'', ''list'') \<in> A \<Longrightarrow>
   adds A tr (snd (list_webhook_providers nas self tr0))"
  by (simp add: list_webhook_providers_def snd_listing adds_request)

lemma adds_backup:
  "adds A tr tr0 \<Longrightarrow> (''SYNO.Backup.Task'', ''list'') \<in> A \<Longrightarrow>
   adds A tr (snd (list_backup_tasks nas self tr0))"
  by (simp add: list_backup_tasks_def snd_listing adds_request)

lemma adds_active:
  "adds A tr tr0 \<Longrightarrow> (''SYNO.Core.DSMNotify'', ''notify'') \<in> A \<Longrightarrow>
   adds A tr (snd (get_active_notifications nas self tr0))"
  unfolding get_active_notifications_def
  by (intro adds_andthen adds_request) (auto intro!: adds_andthen)

lemma adds_webhook_tests:
  "adds A tr tr0 \<Longrightarrow> (''SYNO.Core.Notification.Push.Webhook.Provider'', ''send_test'') \<in> A \<Longrightarrow>
   adds A tr (snd (webhook_tests nas self d ps results tr0))"
proof (induction ps arbitrary: results tr0)
  case Nil
  then show ?case by simp
next
  case (Cons p ps)
  show ?case
    unfolding webhook_tests.simps
    by (intro adds_andthen adds_webhook adds_sleep Cons.IH) (simp_all add: Cons.prems)
qed

lemma adds_run_all_tests:
  assumes "adds A tr tr0" and "\<not> arg_discover args" and "\<not> arg_config args"
    and "set (session_calls args) \<subseteq> A"
  shows "adds A tr (snd (run_all_tests nas self d tr0))"
  using assms unfolding run_all_tests_def Let_def session_calls_def
  by (intro adds_andthen adds_providers adds_push adds_sms adds_health adds_active adds_sleep)
     (auto intro!: adds_andthen adds_webhook_tests)

lemma adds_discover:
  "adds A tr tr0 \<Longrightarrow> (''SYNO.API.Info'', ''query'') \<in> A \<Longrightarrow>
   adds A tr (snd (discover_notification_apis nas self tr0))"
  unfolding discover_notification_apis_def get_api_info_def
  by (intro adds_andthen adds_request) (auto intro!: adds_andthen)

lemma adds_config:
  "adds A tr tr0 \<Longrightarrow> (''SYNO.Core.Notification.Push.Conf'', ''get'') \<in> A \<Longrightarrow>
   (''SYNO.Core.Notification.Mail.Conf'', ''get'') \<in> A \<Longrightarrow>
   (''SYNO.Core.Notification.Webhook'', ''list'') \<in> A \<Longrightarrow>
   adds A tr (snd (get_notification_config nas self tr0))"
  unfolding get_notification_config_def
  by (intro adds_andthen adds_request) auto

lemma adds_in_session:
  "adds (set (session_calls args)) tr (snd (in_session nas args self tr))"
proof -
  have r: "adds (set (session_calls args)) tr tr" by (rule adds_refl)
  show ?thesis
  proof (cases "arg_discover args")
    case True
    then show ?thesis unfolding in_session_def
      by (auto intro!: adds_andthen adds_discover adds_refl simp: session_calls_def)
  next
    case False
    note nd = this
    show ?thesis
    proof (cases "arg_config args")
      case True
      then show ?thesis using nd unfolding in_session_def
        by (auto intro!: adds_andthen adds_config adds_refl simp: session_calls_def)
    next
      case False
      have b: "(''SYNO.Backup.Task'', ''list'') \<in> set (session_calls args)"
        using nd False by (simp add: session_calls_def)
      show ?thesis using nd False unfolding in_session_def
        by (auto intro!: adds_andthen adds_run_all_tests adds_backup adds_refl b adds_step
                 simp: calls_def map_filter_def)
    qed
  qed
qed

lemma session_calls_not_auth: "c \<in> set (session_calls args) \<Longrightarrow> fst c \<noteq> ''SYNO.API.Auth''"
  by (auto simp: session_calls_def split: if_splits)

lemma login_trace:
  "snd (snd (login nas self tr)) =
     tr @ [Post (base_url self @ ''/auth.cgi'')
            (request_data self ''SYNO.API.Auth'' ''login'' 6
               [(''account'', JStr (username self)), (''passwd'', JStr (password self)),
                (''session'', JStr ''NotificationTrigger''), (''format'', JStr ''sid'')])]"
proof -
  let ?r = "request nas self tr ''SYNO.API.Auth'' ''auth.cgi'' ''login'' 6
             [(''account'', JStr (username self)), (''passwd'', JStr (password self)),
              (''session'', JStr ''NotificationTrigger''), (''format'', JStr ''sid'')]"
  have "snd (snd (login nas self tr)) = snd ?r"
    by (auto simp: login_def split: prod.splits sum.splits)
  then show ?thesis by (simp add: request_trace)
qed

lemma login_calls: "calls (snd (snd (login nas self tr))) = calls tr @ [(''SYNO.API.Auth'', ''login'')]"
  by (simp add: login_trace calls_append calls_request)

lemma logout_trace:
  "snd (snd (logout nas self tr)) =
     tr @ (if truthy (session_id self) then
             [Post (base_url self @ ''/auth.cgi'')
                (request_data self ''SYNO.API.Auth'' ''logout'' 1
                   [(''session'', JStr ''NotificationTrigger'')])]
           else [])"
proof (cases "truthy (session_id self)")
  case True
  let ?r = "request nas self tr ''SYNO.API.Auth'' ''auth.cgi'' ''logout'' 1
              [(''session'', JStr ''NotificationTrigger'')]"
  have "snd (snd (logout nas self tr)) = snd ?r"
    using True by (auto simp: logout_def split: prod.splits sum.splits)
  then show ?thesis using True by (simp add: request_trace)
next
  case False
  then show ?thesis by (simp add: logout_def)
qed

lemma logout_calls:
  "calls (snd (snd (logout nas self tr))) =
     calls tr @ (if truthy (session_id self) then [(''SYNO.API.Auth'', ''logout'')] else [])"
  by (simp add: logout_trace calls_append calls_request calls_Nil)

lemma posts_login:
  "length (filter is_Post (snd (snd (login nas self tr)))) = Suc (length (filter is_Post tr))"
  by (simp add: login_trace)

lemma posts_logout:
  "length (filter is_Post (snd (snd (logout nas self tr)))) =
     length (filter is_Post tr) + (if truthy (session_id self) then 1 else 0)"
  by (simp add: logout_trace)

subsection \<open>Transport failures\<close>

text \<open>
  Claim C8. Whatever the request (login or in-session), when \<^verbatim>\<open>requests.post\<close> raises a
  connection error or a timeout (or any other \<^verbatim>\<open>RequestException\<close>), or the response has
  a status from 400 to 599 (for which \<^verbatim>\<open>raise_for_status\<close> raises an HTTP error),
  \<^verbatim>\<open>_request\<close> returns the dict with \<^verbatim>\<open>success\<close> false and the failure's text as
  \<^verbatim>\<open>error\<close>; it does not raise.
\<close>

theorem request_captures_transport_failure:
  assumes "out = nas (length (filter is_Post tr)) (base_url self @ ''/'' @ path)
                   (request_data self api method version params)"
  shows "(\<forall>m. out = Raised (ConnectionError m) \<or> out = Raised (Timeout m) \<longrightarrow>
            fst (request nas self tr api path method version params) =
              Inr (JObj [(''success'', JBool False), (''error'', JStr m)])) \<and>
         (\<forall>e. out = Raised e \<and> is_RequestException e \<longrightarrow>
            fst (request nas self tr api path method version params) =
              Inr (JObj [(''success'', JBool False), (''error'', JStr (str_exn e))])) \<and>
         (\<forall>resp. out = Returned resp \<and> 400 \<le> status_code resp \<and> status_code resp < 600 \<longrightarrow>
            fst (request nas self tr api path method version params) =
              Inr (JObj [(''success'', JBool False),
                         (''error'', JStr (http_error_message resp (base_url self @ ''/'' @ path)))]))"
  using assms [symmetric] by (auto simp: request_def Let_def failure_def)

theorem request_captures_transport_failure_witness:
  "fst (request nas_down (new_trigger [] default_args) [] ''SYNO.Core.System.Status'' ''entry.cgi''
          ''get'' 1 []) =
     Inr (JObj [(''success'', JBool False), (''error'', JStr ''Connection refused'')]) \<and>
   fst (request nas_slow (new_trigger [] default_args) [] ''SYNO.Core.System.Status'' ''entry.cgi''
          ''get'' 1 []) =
     Inr (JObj [(''success'', JBool False), (''error'', JStr ''Read timed out. (read timeout=30)'')]) \<and>
   fst (request nas_unavailable (new_trigger [] default_args) [] ''SYNO.Core.System.Status''
          ''entry.cgi'' ''get'' 1 []) =
     Inr (JObj [(''success'', JBool False),
                (''error'', JStr ''503 Server Error: Service Unavailable for url: http://nas:5000/webapi/entry.cgi'')])"
proof -
  let ?self = "new_trigger [] default_args"
  let ?url = "base_url ?self @ ''/'' @ ''entry.cgi''"
  let ?data = "request_data ?self ''SYNO.Core.System.Status'' ''get'' 1 []"
  have d: "nas_down (length (filter is_Post [])) ?url ?data = Raised (ConnectionError ''Connection refused'')"
    by (simp add: nas_down_def)
  have s: "nas_slow (length (filter is_Post [])) ?url ?data =
      Raised (Timeout ''Read timed out. (read timeout=30)'')"
    by (simp add: nas_slow_def)
  have u: "nas_unavailable (length (filter is_Post [])) ?url ?data =
      Returned \<lparr>status_code = 503, reason = ''Service Unavailable'', body = Inr (JObj [])\<rparr>"
    by (simp add: nas_unavailable_def)
  have m: "http_error_message \<lparr>status_code = 503, reason = ''Service Unavailable'', body = Inr (JObj [])\<rparr> ?url =
      ''503 Server Error: Service Unavailable for url: http://nas:5000/webapi/entry.cgi''"
    by (simp add: http_error_message_def new_trigger_def init_trigger_def default_args_def
        str_int_def str_nat.simps digit_char_def)
  have 1: "fst (request nas_down ?self [] ''SYNO.Core.System.Status'' ''entry.cgi'' ''get'' 1 []) =
      Inr (JObj [(''success'', JBool False), (''error'', JStr ''Connection refused'')])"
    using d request_captures_transport_failure
        [of _ nas_down "[]" "?self" "''entry.cgi''" "''SYNO.Core.System.Status''" "''get''" 1 "[]",
           OF refl] by blast
  have 2: "fst (request nas_slow ?self [] ''SYNO.Core.System.Status'' ''entry.cgi'' ''get'' 1 []) =
      Inr (JObj [(''success'', JBool False), (''error'', JStr ''Read timed out. (read timeout=30)'')])"
    using s request_captures_transport_failure
        [of _ nas_slow "[]" "?self" "''entry.cgi''" "''SYNO.Core.System.Status''" "''get''" 1 "[]",
           OF refl] by blast
  have 3: "fst (request nas_unavailable ?self [] ''SYNO.Core.System.Status'' ''entry.cgi'' ''get'' 1 []) =
      Inr (JObj [(''success'', JBool False), (''error'', JStr
        (http_error_message \<lparr>status_code = 503, reason = ''Service Unavailable'', body = Inr (JObj [])\<rparr> ?url))])"
    using u request_captures_transport_failure
        [of _ nas_unavailable "[]" "?self" "''entry.cgi''" "''SYNO.Core.System.Status''" "''get''" 1 "[]",
           OF refl] by simp
  show ?thesis using 1 2 3 m by simp
qed

subsection \<open>Login first, logout last\<close>

text \<open>
  Claim C1, as amended. In every run the first request is the login, and every request
  names its API and method. If the login does not return \<^verbatim>\<open>True\<close>, it is the only
  request and the exit status is 1. If it does, the requests that follow are in-session
  calls of the run's mode, none of them to \<^verbatim>\<open>SYNO.API.Auth\<close>, and after them, on every
  exit path (the in-session calls may succeed, fail or raise), comes exactly one logout
  request when the stored session token is truthy, and none when it is not.
\<close>

theorem session_discipline:
  "\<exists>mid. calls (snd (main_api nas typed args)) =
       (''SYNO.API.Auth'', ''login'') # mid @
         (if logged_in nas typed args \<and> truthy (token nas typed args)
          then [(''SYNO.API.Auth'', ''logout'')] else []) \<and>
     length (filter is_Post (snd (main_api nas typed args))) =
       length (calls (snd (main_api nas typed args))) \<and>
     (\<forall>c \<in> set mid. c \<in> set (session_calls args) \<and> fst c \<noteq> ''SYNO.API.Auth'') \<and>
     (\<not> logged_in nas typed args \<longrightarrow>
        mid = [] \<and> exit_status (fst (main_api nas typed args)) = 1)"
proof -
  let ?self = "new_trigger typed args"
  obtain r self1 tr1 where l: "login nas ?self [] = (r, self1, tr1)"
    by (cases "login nas ?self []") auto
  have c1: "calls tr1 = [(''SYNO.API.Auth'', ''login'')]"
    using login_calls [of nas ?self "[]"] l by (simp add: calls_Nil)
  have p1: "length (filter is_Post tr1) = 1"
    using posts_login [of nas ?self "[]"] l by simp
  consider (raised) e where "r = Inl e" | (refused) "r = Inr False" | (ok) "r = Inr True"
    by (cases r) auto
  then show ?thesis
  proof cases
    case raised
    then have "main_api nas typed args = (Inl e, tr1)" using l by (simp add: main_api_def)
    moreover have "\<not> logged_in nas typed args" using raised l by (simp add: logged_in_def)
    ultimately show ?thesis using c1 p1 by (intro exI [of _ "[]"]) simp
  next
    case refused
    then have "main_api nas typed args = (Inr 1, tr1)" using l by (simp add: main_api_def)
    moreover have "\<not> logged_in nas typed args" using refused l by (simp add: logged_in_def)
    ultimately show ?thesis using c1 p1 by (intro exI [of _ "[]"]) simp
  next
    case ok
    obtain r2 tr2 where s: "in_session nas args self1 tr1 = (r2, tr2)"
      by (cases "in_session nas args self1 tr1")
    obtain new where n: "tr2 = tr1 @ new" and sub: "set (calls new) \<subseteq> set (session_calls args)"
      and pn: "length (filter is_Post new) = length (calls new)"
      using adds_in_session [of args tr1 nas self1] s by (auto simp: adds_def)
    obtain r3 self2 tr3 where o: "logout nas self1 tr2 = (r3, self2, tr3)"
      by (cases "logout nas self1 tr2") auto
    have c3: "calls tr3 = calls tr2 @
        (if truthy (session_id self1) then [(''SYNO.API.Auth'', ''logout'')] else [])"
      using logout_calls [of nas self1 tr2] o by simp
    have p3: "length (filter is_Post tr3) =
        length (filter is_Post tr2) + (if truthy (session_id self1) then 1 else 0)"
      using posts_logout [of nas self1 tr2] o by simp
    have t: "token nas typed args = session_id self1" using l by (simp add: token_def)
    have li: "logged_in nas typed args" using ok l by (simp add: logged_in_def)
    have m: "snd (main_api nas typed args) = tr3"
      using ok l s o by (auto simp: main_api_def split: sum.splits)
    have "calls (snd (main_api nas typed args)) =
        (''SYNO.API.Auth'', ''login'') # calls new @
         (if logged_in nas typed args \<and> truthy (token nas typed args)
          then [(''SYNO.API.Auth'', ''logout'')] else [])"
      using m c3 n c1 t li by (simp add: calls_append)
    moreover have "length (filter is_Post (snd (main_api nas typed args))) =
        length (calls (snd (main_api nas typed args)))"
      using m c3 p3 n c1 p1 pn by (simp add: calls_append)
    moreover have "\<forall>c \<in> set (calls new). c \<in> set (session_calls args) \<and> fst c \<noteq> ''SYNO.API.Auth''"
      using sub session_calls_not_auth by blast
    ultimately show ?thesis using li by blast
  qed
qed

theorem session_discipline_witness:
  "(\<exists>mid. calls (snd (main_api nas_one_provider [] discover_args)) =
       (''SYNO.API.Auth'', ''login'') # mid @ [(''SYNO.API.Auth'', ''logout'')] \<and>
     set mid \<subseteq> {(''SYNO.API.Info'', ''query'')}) \<and>
   fst (main_api nas_one_provider [] (default_args\<lparr>arg_delay := - 1\<rparr>)) =
     Inl (ValueError ''sleep length must be non-negative'') \<and>
   (\<exists>mid. calls (snd (main_api nas_one_provider [] (default_args\<lparr>arg_delay := - 1\<rparr>))) =
       (''SYNO.API.Auth'', ''login'') # mid @ [(''SYNO.API.Auth'', ''logout'')]) \<and>
   calls (snd (main_api nas_denying [] default_args)) = [(''SYNO.API.Auth'', ''login'')] \<and>
   exit_status (fst (main_api nas_denying [] default_args)) = 1"
proof -
  have l: "logged_in nas_one_provider [] discover_args \<and>
      token nas_one_provider [] discover_args = JStr ''abc''"
    by (simp add: logged_in_def token_def nas_one_provider_def api_run_defs)
  have s: "set (session_calls discover_args) = {(''SYNO.API.Info'', ''query'')}"
    by (simp add: session_calls_def discover_args_def)
  have 1: "\<exists>mid. calls (snd (main_api nas_one_provider [] discover_args)) =
       (''SYNO.API.Auth'', ''login'') # mid @ [(''SYNO.API.Auth'', ''logout'')] \<and>
     set mid \<subseteq> {(''SYNO.API.Info'', ''query'')}"
    using session_discipline [of nas_one_provider "[]" discover_args] l s by auto
  have l2: "logged_in nas_one_provider [] (default_args\<lparr>arg_delay := - 1\<rparr>) \<and>
      token nas_one_provider [] (default_args\<lparr>arg_delay := - 1\<rparr>) = JStr ''abc''"
    by (simp add: logged_in_def token_def nas_one_provider_def api_run_defs)
  have 2: "fst (main_api nas_one_provider [] (default_args\<lparr>arg_delay := - 1\<rparr>)) =
     Inl (ValueError ''sleep length must be non-negative'')"
    by (simp add: nas_one_provider_def api_run_defs)
  have 3: "\<exists>mid. calls (snd (main_api nas_one_provider [] (default_args\<lparr>arg_delay := - 1\<rparr>))) =
       (''SYNO.API.Auth'', ''login'') # mid @ [(''SYNO.API.Auth'', ''logout'')]"
    using session_discipline [of nas_one_provider "[]" "default_args\<lparr>arg_delay := - 1\<rparr>"] l2
    by auto
  have d: "\<not> logged_in nas_denying [] default_args"
    by (simp add: logged_in_def nas_denying_def api_run_defs)
  have 4: "calls (snd (main_api nas_denying [] default_args)) = [(''SYNO.API.Auth'', ''login'')] \<and>
     exit_status (fst (main_api nas_denying [] default_args)) = 1"
    using session_discipline [of nas_denying "[]" default_args] d by auto
  show ?thesis using 1 2 3 4 by blast
qed

text \<open>
  Claim C1 as it is stated fails when the device reports a successful login with an
  empty session token: \<^verbatim>\<open>login\<close> returns \<^verbatim>\<open>True\<close>, and \<^verbatim>\<open>logout\<close>, guarded by
  \<^verbatim>\<open>if self.session_id:\<close>, sends nothing. The run makes the login and the discovery
  query, and no logout.
\<close>

theorem empty_token_counterexample:
  "logged_in nas_empty_sid [] discover_args \<and>
   calls (snd (main_api nas_empty_sid [] discover_args)) =
     [(''SYNO.API.Auth'', ''login''), (''SYNO.API.Info'', ''query'')]"
  by (simp add: logged_in_def nas_empty_sid_def api_run_defs calls_def map_filter_def lower_def)

subsection \<open>The exit code\<close>




subsection \<open>The default mode's calls\<close>

text \<open>
  Claim C3, at a device that accepts everything and lists one webhook provider. The
  default mode lists the providers, tests the webhook, the push and the SMS channel,
  fetches the system health and the active notifications, lists the backup tasks and
  logs out: no request goes to \<^verbatim>\<open>SYNO.Core.Notification.Mail\<close>. The \<^verbatim>\<open>mail\<close> entry of
  \<^verbatim>\<open>results\<close> stays \<^verbatim>\<open>None\<close>, so the summary reports 6 tests and 5 successes.
\<close>

theorem default_run_has_no_mail_test:
  "calls (snd (main_api nas_one_provider [] default_args)) =
     [(''SYNO.API.Auth'', ''login''),
      (''SYNO.Core.Notification.Push.Webhook.Provider'', ''list''),
      (''SYNO.Core.Notification.Push.Webhook.Provider'', ''send_test''),
      (''SYNO.Core.Notification.Push'', ''send_test''),
      (''SYNO.Core.Notification.SMS'', ''send_test''),
      (''SYNO.Core.System.Status'', ''get''),
      (''SYNO.Core.DSMNotify'', ''notify''),
      (''SYNO.Backup.Task'', ''list''),
      (''SYNO.API.Auth'', ''logout'')] \<and>
   Print (TestsCompleted 6 5) \<in> set (snd (main_api nas_one_provider [] default_args)) \<and>
   fst (main_api nas_one_provider [] default_args) = Inr 0"
  by (simp add: nas_one_provider_def api_run_defs calls_def map_filter_def)

subsection \<open>Discovery\<close>






end
